theory Spec2Isabelle
  imports Main "HOL-Library.Word"
begin

unbundle bit_operations_syntax

section \<open>Python values used by the two scripts\<close>

text \<open>
  A Python \<open>str\<close> is a sequence of Unicode code points, so it is modelled as a list of
  natural numbers. \<open>py\<close> turns an ASCII literal of the source into such a list.
\<close>

type_synonym pystr = "nat list"

definition py :: "string \<Rightarrow> pystr" where
  "py s = map of_char s"

text \<open>Truth value of an \<open>Optional[str]\<close>: \<open>None\<close> and the empty string are false.\<close>

definition truthy :: "pystr option \<Rightarrow> bool" where
  "truthy x = (case x of None \<Rightarrow> False | Some s \<Rightarrow> s \<noteq> [])"

text \<open>\<open>sep.join(xs)\<close> on a list of strings.\<close>

fun join :: "pystr \<Rightarrow> pystr list \<Rightarrow> pystr" where
  "join sep [] = []"
| "join sep [x] = x"
| "join sep (x # y # ys) = x @ sep @ join sep (y # ys)"

text \<open>\<open>str(n)\<close> for an \<open>int\<close>: decimal digits, with a minus sign when negative.\<close>

function str_nat :: "nat \<Rightarrow> pystr" where
  "str_nat n = (if n < 10 then [48 + n] else str_nat (n div 10) @ [48 + n mod 10])"
  by pat_completeness auto
termination
  by (relation "measure id") auto

declare str_nat.simps [simp del]

definition str_int :: "int \<Rightarrow> pystr" where
  "str_int i = (if i < 0 then 45 # str_nat (nat (- i)) else str_nat (nat i))"

text \<open>
  \<open>str.isspace\<close> for one code point (CPython's \<open>_PyUnicode_IsWhitespace\<close>) and the
  line boundaries of \<open>str.splitlines\<close> (CPython's \<open>_PyUnicode_IsLinebreak\<close>).
\<close>

definition isspace :: "nat \<Rightarrow> bool" where
  "isspace c \<longleftrightarrow>
     (9 \<le> c \<and> c \<le> 13) \<or> (28 \<le> c \<and> c \<le> 32) \<or> c = 133 \<or> c = 160 \<or> c = 5760 \<or>
     (8192 \<le> c \<and> c \<le> 8202) \<or> c = 8232 \<or> c = 8233 \<or> c = 8239 \<or> c = 8287 \<or> c = 12288"

definition is_linebreak :: "nat \<Rightarrow> bool" where
  "is_linebreak c \<longleftrightarrow>
     (10 \<le> c \<and> c \<le> 13) \<or> (28 \<le> c \<and> c \<le> 30) \<or> c = 133 \<or> c = 8232 \<or> c = 8233"

text \<open>\<open>s.strip()\<close>: leading and trailing whitespace removed.\<close>

definition strip :: "pystr \<Rightarrow> pystr" where
  "strip s = rev (dropWhile isspace (rev (dropWhile isspace s)))"

text \<open>
  \<open>s.splitlines()\<close>: the text is cut at every line boundary, \<open>\r\n\<close> counting as one;
  the boundary is dropped, and a text that ends with a boundary has no empty last line.
  \<open>cur\<close> holds the characters of the line being read.
\<close>

fun splitlines_from :: "pystr \<Rightarrow> pystr \<Rightarrow> pystr list" where
  "splitlines_from cur [] = (if cur = [] then [] else [cur])"
| "splitlines_from cur [c] =
     (if is_linebreak c then [cur] else [cur @ [c]])"
| "splitlines_from cur (c # d # cs) =
     (if is_linebreak c then
        (if c = 13 \<and> d = 10 then cur # splitlines_from [] cs
         else cur # splitlines_from [] (d # cs))
      else splitlines_from (cur @ [c]) (d # cs))"

definition splitlines :: "pystr \<Rightarrow> pystr list" where
  "splitlines s = splitlines_from [] s"

section \<open>generate_changelog.py\<close>

text \<open>
  The exceptions the two scripts can meet. \<open>CalledProcessError\<close> carries the return code
  and the captured standard output and standard error of the child process.
\<close>

datatype error =
    CalledProcessError int pystr pystr
  | OSError
  | JSONDecodeError
  | ValueError pystr
  | AttributeError
  | TypeError
  | UnicodeEncodeError

text \<open>
  What \<open>subprocess.run(..., stdout=PIPE, stderr=PIPE, text=True)\<close> hands back before
  \<open>check=True\<close> is applied.
\<close>

record completed_process =
  returncode :: int
  proc_stdout :: pystr
  proc_stderr :: pystr

text \<open>
  Values that \<open>json.load\<close> returns: \<open>None\<close>, booleans, integers, floats (an IEEE double,
  kept as its 64 bits), strings, lists, and dictionaries (key and value pairs, looked up
  by key; in the dictionary that \<open>json.load\<close> builds a key occurs once).
\<close>

datatype json =
    JNull
  | JBool bool
  | JInt int
  | JFloat "64 word"
  | JStr pystr
  | JList "json list"
  | JDict "(pystr \<times> json) list"

text \<open>
  The world the scripts run in: what running an argument vector gives (or the exception
  that \<open>subprocess.run\<close> itself raises, such as \<open>OSError\<close> when the program cannot be
  started), the text of a file opened for reading, what \<open>json.load\<close> makes of a text,
  whether a path can be opened for writing, and which texts the encoding of standard
  output can encode.
\<close>

record world =
  subprocess_run :: "pystr list \<Rightarrow> error + completed_process"
  open_r :: "pystr \<Rightarrow> error + pystr"
  json_load :: "pystr \<Rightarrow> error + json"
  open_w :: "pystr \<Rightarrow> bool"
  stdout_encodes :: "pystr \<Rightarrow> bool"

text \<open>
  A text can be written to a file opened with \<open>encoding="utf-8"\<close> unless it holds a
  surrogate code point (\<open>U+D800\<close> to \<open>U+DFFF\<close>), which a string can carry when it comes
  from a JSON escape such as \<open>\ud800\<close> or from an argument that is not valid in the
  encoding of the command line; \<open>write\<close> then raises \<open>UnicodeEncodeError\<close>.
\<close>

definition utf8_encodable :: "pystr \<Rightarrow> bool" where
  "utf8_encodable s = list_all (\<lambda>c. \<not> (55296 \<le> c \<and> c \<le> 57343)) s"

definition run_git :: "world \<Rightarrow> pystr list \<Rightarrow> error + pystr" where
  "run_git env args =
     (case subprocess_run env (py ''git'' # args) of
        Inl e \<Rightarrow> Inl e
      | Inr result \<Rightarrow>
          if returncode result \<noteq> 0
          then Inl (CalledProcessError (returncode result) (proc_stdout result) (proc_stderr result))
          else Inr (strip (proc_stdout result)))"

definition get_last_tag :: "world \<Rightarrow> error + pystr option" where
  "get_last_tag env =
     (case run_git env [py ''describe'', py ''--tags'', py ''--abbrev=0''] of
        Inr tag \<Rightarrow> Inr (if tag \<noteq> [] then Some tag else None)
      | Inl (CalledProcessError rc out err) \<Rightarrow> Inr None
      | Inl e \<Rightarrow> Inl e)"

definition build_range :: "pystr option \<Rightarrow> pystr option \<Rightarrow> pystr option" where
  "build_range since_ref until_ref =
     (if truthy since_ref \<and> truthy until_ref
        then Some (the since_ref @ py ''..'' @ the until_ref)
      else if truthy since_ref
        then Some (the since_ref @ py ''..HEAD'')
      else if truthy until_ref
        then Some (the until_ref)
      else None)"

definition build_log_args :: "pystr option \<Rightarrow> pystr option \<Rightarrow> int \<Rightarrow> bool \<Rightarrow> pystr list" where
  "build_log_args git_range since_date max_count include_merges =
     (let args = [py ''log''];
          args = (if truthy git_range then args @ [the git_range] else args);
          args = (if \<not> include_merges then args @ [py ''--no-merges''] else args);
          args = args @ [py ''--max-count='' @ str_int max_count];
          args = (if truthy since_date then args @ [py ''--since'', the since_date] else args);
          args = args @ [py ''--pretty=format:%h %s'']
      in args)"

definition format_markdown :: "pystr \<Rightarrow> pystr list \<Rightarrow> pystr" where
  "format_markdown title commits =
     (let lines = [title, []] in
      if commits = []
      then join (py ''\<newline>'') (lines @ [py ''- (No commits found)''])
      else join (py ''\<newline>'') (lines @ map (\<lambda>c. py ''- '' @ c) commits))"

text \<open>The options of the changelog generator as \<open>argparse\<close> returns them.\<close>

record changelog_args =
  since_ref_arg :: "pystr option"
  until_ref_arg :: "pystr option"
  since_date_arg :: "pystr option"
  max_arg :: int
  include_merges_arg :: bool
  output_arg :: "pystr option"

text \<open>
  What a run leaves behind: the text sent to standard output and to standard error, and
  the files written (path and content).
\<close>

record effects =
  to_stdout :: pystr
  to_stderr :: pystr
  written :: "(pystr \<times> pystr) list"

definition no_effects :: effects where
  "no_effects = \<lparr>to_stdout = [], to_stderr = [], written = []\<rparr>"

text \<open>
  \<open>commits_of output\<close> is the list comprehension of \<open>main\<close>:
  \<open>[line.strip() for line in output.splitlines() if line.strip()]\<close>.
\<close>

definition commits_of :: "pystr \<Rightarrow> pystr list" where
  "commits_of output = map strip (filter (\<lambda>line. strip line \<noteq> []) (splitlines output))"

definition changelog_title :: "pystr option \<Rightarrow> changelog_args \<Rightarrow> pystr" where
  "changelog_title since_ref args =
     (let title_parts = [py ''## Changelog''];
          title_parts = (if truthy since_ref
             then title_parts @ [py ''(since '' @ the since_ref @ py '')''] else title_parts);
          title_parts = (if truthy (since_date_arg args)
             then title_parts @ [py ''(since '' @ the (since_date_arg args) @ py '')'']
             else title_parts);
          title_parts = (if truthy (until_ref_arg args)
             then title_parts @ [py ''(until '' @ the (until_ref_arg args) @ py '')'']
             else title_parts)
      in join (py '' '') title_parts)"

text \<open>
  \<open>main\<close> returns the exit code, or the exception that leaves it, together with what
  was written. \<open>main_since_ref\<close> is its first step: the reference to start from, the last
  tag when neither \<open>--since-ref\<close> nor \<open>--since-date\<close> is given.

  Opening the output file creates or empties it; when \<open>write\<close> then raises, the file
  stays empty. \<open>print\<close> writes the text and then a newline to standard output; every
  encoding has the newline, so only the text can make it raise, and then nothing has
  been written. Standard error replaces what it cannot encode and does not raise.
\<close>

definition main_since_ref :: "world \<Rightarrow> changelog_args \<Rightarrow> error + pystr option" where
  "main_since_ref env args =
     (if \<not> truthy (since_ref_arg args) \<and> \<not> truthy (since_date_arg args)
      then get_last_tag env else Inr (since_ref_arg args))"

definition changelog_main :: "world \<Rightarrow> changelog_args \<Rightarrow> (error + int) \<times> effects" where
  "changelog_main env args =
     (case main_since_ref env args of
        Inl e \<Rightarrow> (Inl e, no_effects)
      | Inr since_ref \<Rightarrow>
         (let git_range = build_range since_ref (until_ref_arg args);
              log_args = build_log_args git_range (since_date_arg args) (max_arg args)
                           (include_merges_arg args)
          in case run_git env log_args of
               Inl (CalledProcessError rc out err) \<Rightarrow>
                 (Inr 1, no_effects\<lparr>to_stderr :=
                    (if err \<noteq> [] then err else py ''Failed to run git log.\<newline>'')\<rparr>)
             | Inl e \<Rightarrow> (Inl e, no_effects)
             | Inr output \<Rightarrow>
                 (let commits = commits_of output;
                      title = changelog_title since_ref args;
                      markdown = format_markdown title commits
                  in if truthy (output_arg args)
                     then (if \<not> open_w env (the (output_arg args))
                           then (Inl OSError, no_effects)
                           else if \<not> utf8_encodable (markdown @ py ''\<newline>'')
                           then (Inl UnicodeEncodeError,
                                 no_effects\<lparr>written := [(the (output_arg args), [])]\<rparr>)
                           else (Inr 0, no_effects\<lparr>written :=
                                   [(the (output_arg args), markdown @ py ''\<newline>'')]\<rparr>))
                     else (if \<not> stdout_encodes env markdown
                           then (Inl UnicodeEncodeError, no_effects)
                           else (Inr 0,
                                 no_effects\<lparr>to_stdout := markdown @ py ''\<newline>''\<rparr>)))))"

section \<open>build_research_report.py\<close>

text \<open>Truth value of a value, as \<open>if x:\<close> tests it.\<close>

fun truthy_value :: "json \<Rightarrow> bool" where
  "truthy_value JNull = False"
| "truthy_value (JBool b) = b"
| "truthy_value (JInt i) = (i \<noteq> 0)"
| "truthy_value (JFloat w) = (w \<noteq> 0 \<and> w \<noteq> 0x8000000000000000)"
| "truthy_value (JStr s) = (s \<noteq> [])"
| "truthy_value (JList xs) = (xs \<noteq> [])"
| "truthy_value (JDict kvs) = (kvs \<noteq> [])"

text \<open>\<open>d.get(key, default)\<close>.\<close>

definition dict_get :: "(pystr \<times> json) list \<Rightarrow> pystr \<Rightarrow> json \<Rightarrow> json" where
  "dict_get d key dflt = (case map_of d key of None \<Rightarrow> dflt | Some v \<Rightarrow> v)"

text \<open>
  A value inside an f-string: a string stands for itself; any other value is rendered by
  Python's \<open>str\<close>, which is a parameter \<open>py_str\<close> of the model.
\<close>

definition format_value :: "(json \<Rightarrow> pystr) \<Rightarrow> json \<Rightarrow> pystr" where
  "format_value py_str v = (case v of JStr s \<Rightarrow> s | _ \<Rightarrow> py_str v)"

text \<open>\<open>sep.join(parts)\<close> raises \<open>TypeError\<close> when a part is not a string.\<close>

fun the_strs :: "json list \<Rightarrow> pystr list option" where
  "the_strs [] = Some []"
| "the_strs (JStr s # vs) = (case the_strs vs of None \<Rightarrow> None | Some ss \<Rightarrow> Some (s # ss))"
| "the_strs (v # vs) = None"

definition join_values :: "pystr \<Rightarrow> json list \<Rightarrow> error + pystr" where
  "join_values sep parts =
     (case the_strs parts of None \<Rightarrow> Inl TypeError | Some ss \<Rightarrow> Inr (join sep ss))"

definition load_sources :: "world \<Rightarrow> pystr \<Rightarrow> error + json list" where
  "load_sources env path =
     (case open_r env path of
        Inl e \<Rightarrow> Inl e
      | Inr handle \<Rightarrow>
          (case json_load env handle of
             Inl e \<Rightarrow> Inl e
           | Inr (JList data) \<Rightarrow> Inr data
           | Inr other \<Rightarrow> Inl (ValueError (py ''Input JSON must be a list of source objects''))))"

text \<open>
  The body of the loop of \<open>format_sources\<close>: the line made for one item. An item
  that is not a dictionary has no \<open>get\<close> (\<open>AttributeError\<close>).
\<close>

definition format_source :: "(json \<Rightarrow> pystr) \<Rightarrow> json \<Rightarrow> error + pystr" where
  "format_source py_str item =
     (case item of
        JDict d \<Rightarrow>
          (let title = dict_get d (py ''title'') (JStr (py ''(untitled)''));
               url = dict_get d (py ''url'') (JStr []);
               date = dict_get d (py ''date'') (JStr []);
               notes = dict_get d (py ''notes'') (JStr []);
               source_type = dict_get d (py ''type'') (JStr []);
               parts = [title];
               parts = (if truthy_value date
                  then parts @ [JStr (py ''['' @ format_value py_str date @ py '']'')] else parts);
               parts = (if truthy_value source_type
                  then parts @ [JStr (py ''('' @ format_value py_str source_type @ py '')'')]
                  else parts)
           in case join_values (py '' '') parts of
                Inl e \<Rightarrow> Inl e
              | Inr joined \<Rightarrow>
                  (let line = py ''- '' @ joined;
                       line = (if truthy_value url
                          then line @ py ''\<newline>  - URL: '' @ format_value py_str url else line);
                       line = (if truthy_value notes
                          then line @ py ''\<newline>  - Notes: '' @ format_value py_str notes else line)
                   in Inr line))
      | _ \<Rightarrow> Inl AttributeError)"

text \<open>The loop: the lines of the items in order, or the first exception.\<close>

fun format_lines :: "(json \<Rightarrow> pystr) \<Rightarrow> json list \<Rightarrow> error + pystr list" where
  "format_lines py_str [] = Inr []"
| "format_lines py_str (item # items) =
     (case format_source py_str item of
        Inl e \<Rightarrow> Inl e
      | Inr line \<Rightarrow>
          (case format_lines py_str items of
             Inl e \<Rightarrow> Inl e
           | Inr lines \<Rightarrow> Inr (line # lines)))"

definition format_sources :: "(json \<Rightarrow> pystr) \<Rightarrow> json list \<Rightarrow> error + pystr" where
  "format_sources py_str sources =
     (if sources = [] then Inr (py ''- (No sources provided)'')
      else case format_lines py_str sources of
             Inl e \<Rightarrow> Inl e
           | Inr lines \<Rightarrow> Inr (join (py ''\<newline>'') lines))"

definition build_report :: "(json \<Rightarrow> pystr) \<Rightarrow> pystr \<Rightarrow> json list \<Rightarrow> error + pystr" where
  "build_report py_str topic sources =
     (case format_sources py_str sources of
        Inl e \<Rightarrow> Inl e
      | Inr formatted \<Rightarrow>
          Inr (join (py ''\<newline>'')
            [py ''# Research Report: '' @ topic,
             [],
             py ''## Summary'',
             py ''- ...'',
             py ''- ...'',
             [],
             py ''## Key facts (with dates)'',
             py ''- ...'',
             [],
             py ''## Contradictions / uncertainties'',
             py ''- ...'',
             [],
             py ''## Sources'',
             formatted,
             []]))"



section \<open>Notions used to state the properties\<close>



text \<open>
  A source object is a dictionary whose values are all strings
  (\<open>Dict[str, str]\<close> in the annotations of the source). \<open>str_field d key\<close> is the text of
  a field of such an object: empty when the key is missing.
\<close>

fun is_str :: "json \<Rightarrow> bool" where
  "is_str (JStr s) = True"
| "is_str v = False"

fun source_object :: "json \<Rightarrow> bool" where
  "source_object (JDict d) = list_all (\<lambda>kv. is_str (snd kv)) d"
| "source_object v = False"

definition str_field :: "(pystr \<times> json) list \<Rightarrow> pystr \<Rightarrow> pystr" where
  "str_field d key = (case map_of d key of Some (JStr s) \<Rightarrow> s | _ \<Rightarrow> [])"

text \<open>
  \<open>kept\<close> is the comprehension of \<open>main\<close> on a list of lines: the lines that are not
  empty once stripped, stripped.
\<close>

definition kept :: "pystr list \<Rightarrow> pystr list" where
  "kept ls = map strip (filter (\<lambda>line. strip line \<noteq> []) ls)"

section \<open>Example worlds and arguments\<close>

text \<open>A directory that is not a repository: every \<open>git\<close> command fails with status 128.\<close>

definition failing_world :: world where
  "failing_world =
     \<lparr>subprocess_run = (\<lambda>argv. Inr \<lparr>returncode = 128, proc_stdout = [],
          proc_stderr = py ''fatal: not a git repository\<newline>''\<rparr>),
      open_r = (\<lambda>path. Inl OSError),
      json_load = (\<lambda>text. Inl JSONDecodeError),
      open_w = (\<lambda>path. True),
      stdout_encodes = utf8_encodable\<rparr>"

text \<open>The options when the command line is empty.\<close>

definition default_args :: changelog_args where
  "default_args =
     \<lparr>since_ref_arg = None, until_ref_arg = None, since_date_arg = None, max_arg = 50,
      include_merges_arg = False, output_arg = None\<rparr>"




text \<open>Two source objects: one with a title, a date, a link and empty notes; one without a title.\<close>

definition paper :: json where
  "paper = JDict [(py ''title'', JStr (py ''Paper'')), (py ''date'', JStr (py ''2024-01-02'')),
                  (py ''url'', JStr (py ''https://x.test'')), (py ''notes'', JStr [])]"

definition forum_post :: json where
  "forum_post = JDict [(py ''type'', JStr (py ''community'')), (py ''notes'', JStr (py ''unverified''))]"

text \<open>A stand-in for Python's \<open>str\<close> on values that are not strings.\<close>

definition example_str :: "json \<Rightarrow> pystr" where
  "example_str v = py ''?''"

text \<open>A source object whose title is the lone surrogate of the JSON text \<open>"\ud800"\<close>.\<close>

definition surrogate_note :: json where
  "surrogate_note = JDict [(py ''title'', JStr [55296])]"

text \<open>
  A directory with five files: a list of the two source objects, a list of a number, an
  object, a text that is not JSON, and a list of the source object with the surrogate.
  Only \<open>report.md\<close> can be opened for writing. Standard output is UTF-8.
\<close>

definition report_world :: world where
  "report_world =
     \<lparr>subprocess_run = (\<lambda>argv. Inl OSError),
      open_r = (\<lambda>path.
        if path = py ''sources.json'' then Inr (py ''[papers]'')
        else if path = py ''numbers.json'' then Inr (py ''[1]'')
        else if path = py ''object.json'' then Inr (py ''{}'')
        else if path = py ''broken.json'' then Inr (py ''['')
        else if path = py ''surrogate.json'' then Inr (py ''[surrogate]'')
        else Inl OSError),
      json_load = (\<lambda>text.
        if text = py ''[papers]'' then Inr (JList [paper, forum_post])
        else if text = py ''[1]'' then Inr (JList [JInt 1])
        else if text = py ''{}'' then Inr (JDict [])
        else if text = py ''[surrogate]'' then Inr (JList [surrogate_note])
        else Inl JSONDecodeError),
      open_w = (\<lambda>path. path = py ''report.md''),
      stdout_encodes = utf8_encodable\<rparr>"


text \<open>A repository where \<open>git log\<close> fails without a message.\<close>

definition silent_world :: world where
  "silent_world =
     \<lparr>subprocess_run = (\<lambda>argv. Inr \<lparr>returncode = 1, proc_stdout = [], proc_stderr = []\<rparr>),
      open_r = (\<lambda>path. Inl OSError),
      json_load = (\<lambda>text. Inl JSONDecodeError),
      open_w = (\<lambda>path. True),
      stdout_encodes = utf8_encodable\<rparr>"



section \<open>Facts about strings\<close>

lemma join_Cons: "join sep (x # xs) = x @ concat (map (\<lambda>y. sep @ y) xs)"
  by (induction xs arbitrary: x) simp_all

lemma py_Nil [simp]: "py [] = []"
  by (simp add: py_def)

lemma py_Cons_neq_Nil [simp]: "py (c # s) \<noteq> []"
  by (simp add: py_def)

lemma py_newline: "py s @ py ''\<newline>'' = py (s @ ''\<newline>'')"
  by (simp add: py_def)

lemma truthy_simps [simp]:
  "truthy None = False" "truthy (Some s) = (s \<noteq> [])"
  by (simp_all add: truthy_def)

lemma not_truthy_conv: "\<not> truthy x \<longleftrightarrow> x = None \<or> x = Some []"
  by (cases x) simp_all

lemma linebreak_isspace: "is_linebreak c \<Longrightarrow> isspace c"
  by (auto simp: is_linebreak_def isspace_def)

lemma strip_Nil [simp]: "strip [] = []"
  by (simp add: strip_def)






lemma utf8_encodable_append [simp]:
  "utf8_encodable (s @ t) \<longleftrightarrow> utf8_encodable s \<and> utf8_encodable t"
  by (simp add: utf8_encodable_def)

lemma utf8_encodable_py: "utf8_encodable (py s)"
proof -
  have "\<not> (55296 \<le> (of_char c :: nat) \<and> (of_char c :: nat) \<le> 57343)" for c
    using nat_of_char_less_256 [of c] by linarith
  then show ?thesis
    by (simp add: utf8_encodable_def py_def list_all_iff)
qed

lemma utf8_encodable_newline: "utf8_encodable (s @ py ''\<newline>'') \<longleftrightarrow> utf8_encodable s"
  by (simp add: utf8_encodable_py)




subsection \<open>Whitespace around a text does not change its kept lines\<close>

lemma kept_simps [simp]:
  "kept [] = []"
  "kept (l # ls) = (if strip l \<noteq> [] then strip l # kept ls else kept ls)"
  by (simp_all add: kept_def)

















section \<open>The changelog generator\<close>

text \<open>
  Claim C10. \<open>build_range\<close> gives \<open>since..until\<close> when both arguments are non-empty,
  \<open>since..HEAD\<close> when only \<open>since_ref\<close> is non-empty, the bare \<open>until_ref\<close> when only
  \<open>until_ref\<close> is non-empty, and \<open>None\<close> when both are absent or empty. An argument is
  non-empty when it passes the test of the source (\<open>truthy\<close>), and absent or empty when it
  does not, so the four cases cover every pair of arguments and no two of them overlap.
\<close>
theorem build_range_cases:
  "(s \<noteq> [] \<and> u \<noteq> [] \<longrightarrow>
      build_range (Some s) (Some u) = Some (s @ py ''..'' @ u))
   \<and> (s \<noteq> [] \<and> \<not> truthy until_ref \<longrightarrow>
      build_range (Some s) until_ref = Some (s @ py ''..HEAD''))
   \<and> (\<not> truthy since_ref \<and> u \<noteq> [] \<longrightarrow>
      build_range since_ref (Some u) = Some u)
   \<and> (\<not> truthy since_ref \<and> \<not> truthy until_ref \<longrightarrow>
      build_range since_ref until_ref = None)
   \<and> (truthy x \<longleftrightarrow> (\<exists>t. x = Some t \<and> t \<noteq> []))
   \<and> (\<not> truthy x \<longleftrightarrow> x = None \<or> x = Some [])"
  by (cases x) (simp_all add: build_range_def)

text \<open>The four cases at concrete references, with both ways of being absent or empty.\<close>

theorem build_range_cases_witness:
  "build_range (Some (py ''v1'')) (Some (py ''v2'')) = Some (py ''v1..v2'')
   \<and> build_range (Some (py ''v1'')) None = Some (py ''v1..HEAD'')
   \<and> build_range (Some (py ''v1'')) (Some []) = Some (py ''v1..HEAD'')
   \<and> build_range None (Some (py ''v2'')) = Some (py ''v2'')
   \<and> build_range (Some []) (Some (py ''v2'')) = Some (py ''v2'')
   \<and> build_range None None = None
   \<and> build_range (Some []) (Some []) = None"
  using build_range_cases [of "py ''v1''" "py ''v2''" None None None]
    build_range_cases [of "py ''v1''" "py ''v2''" "Some []" "Some []" None]
  by (simp add: py_def)

text \<open>
  Claim C1. For a non-empty list of commits, \<open>format_markdown\<close> returns the title, an
  empty line, and one line \<open>- commit\<close> per commit in the order of the list, joined by
  newlines; written out, that is the title, a newline, and for each commit in turn a
  newline and its bullet.
\<close>
theorem format_markdown_bullets:
  "commits \<noteq> [] \<Longrightarrow>
     format_markdown title commits
       = join (py ''\<newline>'') ([title, []] @ map (\<lambda>c. py ''- '' @ c) commits)
   \<and> format_markdown title commits
       = title @ py ''\<newline>'' @ concat (map (\<lambda>c. py ''\<newline>- '' @ c) commits)"
  by (simp add: format_markdown_def join_Cons py_def comp_def)

theorem format_markdown_bullets_witness:
  "[py ''a1 fix'', py ''b2 add''] \<noteq> []
   \<and> format_markdown (py ''## Changelog'') [py ''a1 fix'', py ''b2 add'']
       = py ''## Changelog\<newline>\<newline>- a1 fix\<newline>- b2 add''"
  using format_markdown_bullets [of "[py ''a1 fix'', py ''b2 add'']" "py ''## Changelog''"]
  by (simp add: py_def)

text \<open>
  Claim C3. When the \<open>git log\<close> child process ends with a non-zero status, so that
  \<open>run_git\<close> raises \<open>CalledProcessError\<close>, \<open>main\<close> returns 1, writes the captured
  standard error of the child (or \<open>Failed to run git log.\<close> when that is empty) to standard
  error, and writes nothing to standard output nor to any file.
\<close>
theorem main_git_log_failure:
  assumes "main_since_ref env args = Inr since_ref"
    and "subprocess_run env
           (py ''git'' # build_log_args (build_range since_ref (until_ref_arg args))
              (since_date_arg args) (max_arg args) (include_merges_arg args)) = Inr r"
    and "returncode r \<noteq> 0"
  shows "run_git env (build_log_args (build_range since_ref (until_ref_arg args))
              (since_date_arg args) (max_arg args) (include_merges_arg args))
           = Inl (CalledProcessError (returncode r) (proc_stdout r) (proc_stderr r))
         \<and> changelog_main env args =
           (Inr 1, \<lparr>to_stdout = [],
                    to_stderr = (if proc_stderr r \<noteq> [] then proc_stderr r
                                 else py ''Failed to run git log.\<newline>''),
                    written = []\<rparr>)"
  using assms by (simp add: changelog_main_def run_git_def no_effects_def Let_def)

text \<open>
  Outside a repository, with no options: the message of \<open>git\<close> goes to standard error.
  With an empty standard error the fallback message is written.
\<close>

theorem main_git_log_failure_witness:
  "main_since_ref failing_world default_args = Inr None
   \<and> changelog_main failing_world default_args =
        (Inr 1, \<lparr>to_stdout = [], to_stderr = py ''fatal: not a git repository\<newline>'',
                 written = []\<rparr>)
   \<and> changelog_main silent_world default_args =
        (Inr 1, \<lparr>to_stdout = [], to_stderr = py ''Failed to run git log.\<newline>'',
                 written = []\<rparr>)"
proof -
  have s: "main_since_ref failing_world default_args = Inr None"
    by (simp add: main_since_ref_def get_last_tag_def run_git_def failing_world_def default_args_def)
  have r: "subprocess_run failing_world
             (py ''git'' # build_log_args (build_range None (until_ref_arg default_args))
                (since_date_arg default_args) (max_arg default_args)
                (include_merges_arg default_args))
        = Inr \<lparr>returncode = 128, proc_stdout = [],
               proc_stderr = py ''fatal: not a git repository\<newline>''\<rparr>"
    by (simp add: failing_world_def)
  have s': "main_since_ref silent_world default_args = Inr None"
    by (simp add: main_since_ref_def get_last_tag_def run_git_def silent_world_def default_args_def)
  have r': "subprocess_run silent_world
             (py ''git'' # build_log_args (build_range None (until_ref_arg default_args))
                (since_date_arg default_args) (max_arg default_args)
                (include_merges_arg default_args))
        = Inr \<lparr>returncode = 1, proc_stdout = [], proc_stderr = []\<rparr>"
    by (simp add: silent_world_def)
  show ?thesis
    using main_git_log_failure [OF s r] main_git_log_failure [OF s' r'] s by simp
qed



section \<open>The report scaffolder\<close>

lemma values_str_lookup:
  "list_all (\<lambda>kv. is_str (snd kv)) d \<Longrightarrow> map_of d key = Some v \<Longrightarrow> is_str v"
  by (induction d) (auto split: if_splits)

lemma is_str_conv: "is_str v \<longleftrightarrow> (\<exists>s. v = JStr s)"
  by (cases v) simp_all

lemma dict_get_str_field:
  assumes "list_all (\<lambda>kv. is_str (snd kv)) d"
  shows "dict_get d key (JStr dflt)
           = JStr (if map_of d key = None then dflt else str_field d key)"
proof (cases "map_of d key")
  case None
  then show ?thesis by (simp add: dict_get_def)
next
  case (Some v)
  with assms have "is_str v" by (rule values_str_lookup)
  then obtain s where "v = JStr s" by (auto simp: is_str_conv)
  with Some show ?thesis by (simp add: dict_get_def str_field_def)
qed

lemma str_field_missing: "map_of d key = None \<Longrightarrow> str_field d key = []"
  by (simp add: str_field_def)

lemma dict_get_str_field_empty:
  "list_all (\<lambda>kv. is_str (snd kv)) d \<Longrightarrow> dict_get d key (JStr []) = JStr (str_field d key)"
  by (simp add: dict_get_str_field str_field_missing)

lemma format_value_JStr [simp]: "format_value py_str (JStr s) = s"
  by (simp add: format_value_def)

lemma format_source_object:
  assumes "source_object (JDict d)"
  shows "format_source py_str (JDict d) =
    Inr (py ''- ''
         @ (if map_of d (py ''title'') = None then py ''(untitled)'' else str_field d (py ''title''))
         @ (if str_field d (py ''date'') \<noteq> []
            then py '' ['' @ str_field d (py ''date'') @ py '']'' else [])
         @ (if str_field d (py ''type'') \<noteq> []
            then py '' ('' @ str_field d (py ''type'') @ py '')'' else [])
         @ (if str_field d (py ''url'') \<noteq> []
            then py ''\<newline>  - URL: '' @ str_field d (py ''url'') else [])
         @ (if str_field d (py ''notes'') \<noteq> []
            then py ''\<newline>  - Notes: '' @ str_field d (py ''notes'') else []))"
proof -
  from assms have d: "list_all (\<lambda>kv. is_str (snd kv)) d" by simp
  have title: "dict_get d (py ''title'') (JStr (py ''(untitled)''))
      = JStr (if map_of d (py ''title'') = None then py ''(untitled)'' else str_field d (py ''title''))"
    using d by (rule dict_get_str_field)
  have other: "dict_get d key (JStr []) = JStr (str_field d key)" for key
    using d by (rule dict_get_str_field_empty)
  have lits: "py '' ['' = py '' '' @ py ''[''" "py '' ('' = py '' '' @ py ''(''"
    by (simp_all add: py_def)
  show ?thesis
    unfolding format_source_def json.case Let_def title other
    by (simp add: join_values_def lits)
qed

lemma format_lines_objects:
  "list_all source_object sources \<Longrightarrow>
     \<exists>lines. format_lines py_str sources = Inr lines
       \<and> map (format_source py_str) sources = map Inr lines"
proof (induction sources)
  case Nil
  then show ?case by simp
next
  case (Cons item sources)
  then obtain lines where lines: "format_lines py_str sources = Inr lines"
      "map (format_source py_str) sources = map Inr lines"
    by auto
  from Cons.prems obtain d where "item = JDict d" "source_object (JDict d)"
    by (cases item) simp_all
  then obtain line where "format_source py_str item = Inr line"
    using format_source_object [of d py_str] by simp
  with lines show ?case by simp
qed

lemma format_sources_objects:
  "list_all source_object sources \<Longrightarrow> \<exists>formatted. format_sources py_str sources = Inr formatted"
  using format_lines_objects [of sources py_str] by (auto simp: format_sources_def)

lemma build_report_text:
  "format_sources py_str sources = Inr formatted \<Longrightarrow>
     build_report py_str topic sources =
       Inr (py ''# Research Report: '' @ topic
            @ py ''\<newline>\<newline>## Summary\<newline>- ...\<newline>- ...\<newline>\<newline>## Key facts (with dates)\<newline>- ...\<newline>\<newline>## Contradictions / uncertainties\<newline>- ...\<newline>\<newline>## Sources\<newline>''
            @ formatted @ py ''\<newline>'')"
  by (simp add: build_report_def py_def)

lemma paper_line:
  "format_source py_str paper = Inr (py ''- Paper [2024-01-02]\<newline>  - URL: https://x.test'')"
  by (simp add: paper_def format_source_def dict_get_def join_values_def py_def)

lemma forum_post_line:
  "format_source py_str forum_post
     = Inr (py ''- (untitled) (community)\<newline>  - Notes: unverified'')"
  by (simp add: forum_post_def format_source_def dict_get_def join_values_def py_def)









text \<open>
  Claim C9. On an empty list each formatter gives one placeholder bullet:
  \<open>format_markdown title []\<close> is the title, an empty line and \<open>- (No commits found)\<close>;
  \<open>format_sources []\<close> is \<open>- (No sources provided)\<close>.
\<close>
theorem empty_input_placeholders:
  "format_markdown title [] = title @ py ''\<newline>\<newline>- (No commits found)''
   \<and> format_sources py_str [] = Inr (py ''- (No sources provided)'')"
  by (simp add: format_markdown_def format_sources_def py_def)

text \<open>
  Claim C8. For a source object, the entry that \<open>format_sources\<close> makes is \<open>- \<close> and the
  title, \<open>(untitled)\<close> standing for a missing title; then the date in brackets, the type
  in parentheses, the \<open>URL:\<close> sub-bullet and the \<open>Notes:\<close> sub-bullet, each there exactly
  when its field is present and non-empty. For a non-empty list of source objects
  \<open>format_sources\<close> returns these entries, in order, joined by newlines. The text
  \<open>str_field d key\<close> of a field is non-empty exactly when the key is present with a
  non-empty string.
\<close>
theorem format_sources_entries:
  "(source_object (JDict d) \<longrightarrow>
      format_source py_str (JDict d) =
        Inr (py ''- ''
         @ (if map_of d (py ''title'') = None then py ''(untitled)'' else str_field d (py ''title''))
         @ (if str_field d (py ''date'') \<noteq> []
            then py '' ['' @ str_field d (py ''date'') @ py '']'' else [])
         @ (if str_field d (py ''type'') \<noteq> []
            then py '' ('' @ str_field d (py ''type'') @ py '')'' else [])
         @ (if str_field d (py ''url'') \<noteq> []
            then py ''\<newline>  - URL: '' @ str_field d (py ''url'') else [])
         @ (if str_field d (py ''notes'') \<noteq> []
            then py ''\<newline>  - Notes: '' @ str_field d (py ''notes'') else [])))
   \<and> (list_all source_object sources \<and> sources \<noteq> [] \<longrightarrow>
        (\<exists>lines. map (format_source py_str) sources = map Inr lines
           \<and> format_sources py_str sources = Inr (join (py ''\<newline>'') lines)))
   \<and> (source_object (JDict d) \<longrightarrow>
        (str_field d key \<noteq> [] \<longleftrightarrow> (\<exists>s. map_of d key = Some (JStr s) \<and> s \<noteq> [])))"
  (is "(?A \<longrightarrow> ?B) \<and> (?C \<longrightarrow> ?D) \<and> (?A \<longrightarrow> ?E)")
proof (intro conjI impI)
  assume ?A
  then show ?B by (rule format_source_object)
next
  assume c: ?C
  then obtain lines where "format_lines py_str sources = Inr lines"
      "map (format_source py_str) sources = map Inr lines"
    using format_lines_objects [of sources py_str] by auto
  with c show ?D
    by (auto simp: format_sources_def)
next
  show ?E
    by (auto simp: str_field_def split: option.splits json.splits)
qed

theorem format_sources_entries_witness:
  "source_object paper \<and> source_object forum_post
   \<and> format_source example_str paper
        = Inr (py ''- Paper [2024-01-02]\<newline>  - URL: https://x.test'')
   \<and> format_source example_str forum_post
        = Inr (py ''- (untitled) (community)\<newline>  - Notes: unverified'')
   \<and> format_sources example_str [paper, forum_post]
        = Inr (py ''- Paper [2024-01-02]\<newline>  - URL: https://x.test\<newline>- (untitled) (community)\<newline>  - Notes: unverified'')"
proof -
  have p: "source_object paper" and f: "source_object forum_post"
    by (simp_all add: paper_def forum_post_def)
  note t = format_sources_entries [of _ example_str "[paper, forum_post]" "py ''date''"]
  have one: "format_source example_str paper
        = Inr (py ''- Paper [2024-01-02]\<newline>  - URL: https://x.test'')"
    using t [of "[(py ''title'', JStr (py ''Paper'')), (py ''date'', JStr (py ''2024-01-02'')),
                  (py ''url'', JStr (py ''https://x.test'')), (py ''notes'', JStr [])]"] p
    by (simp add: paper_def str_field_def py_def)
  have two: "format_source example_str forum_post
        = Inr (py ''- (untitled) (community)\<newline>  - Notes: unverified'')"
    using t [of "[(py ''type'', JStr (py ''community'')),
                  (py ''notes'', JStr (py ''unverified''))]"] f
    by (simp add: forum_post_def str_field_def py_def)
  have "list_all source_object [paper, forum_post] \<and> [paper, forum_post] \<noteq> []"
    using p f by simp
  with t [of "[]"]
  have "\<exists>lines. map (format_source example_str) [paper, forum_post] = map Inr lines
      \<and> format_sources example_str [paper, forum_post] = Inr (join (py ''\<newline>'') lines)"
    by blast
  then obtain lines where
    l: "map (format_source example_str) [paper, forum_post] = map Inr lines"
      "format_sources example_str [paper, forum_post] = Inr (join (py ''\<newline>'') lines)"
    by blast
  from l(1) one two
  have "lines = [py ''- Paper [2024-01-02]\<newline>  - URL: https://x.test'',
      py ''- (untitled) (community)\<newline>  - Notes: unverified'']"
    by (cases lines; cases "tl lines") auto
  with l(2) p f one two show ?thesis by (simp add: py_def)
qed

text \<open>
  Claim C2. For every topic and every list of source objects, \<open>build_report\<close> returns
  the line \<open># Research Report: topic\<close>, then the sections \<open>## Summary\<close>,
  \<open>## Key facts (with dates)\<close>, \<open>## Contradictions / uncertainties\<close> and \<open>## Sources\<close> of
  the template in this order, the text of \<open>format_sources\<close> under \<open>## Sources\<close>, and a
  newline at the end.
\<close>
theorem build_report_template:
  assumes "list_all source_object sources"
  shows "\<exists>formatted. format_sources py_str sources = Inr formatted
     \<and> build_report py_str topic sources =
       Inr (py ''# Research Report: '' @ topic
            @ py ''\<newline>\<newline>## Summary\<newline>- ...\<newline>- ...\<newline>\<newline>## Key facts (with dates)\<newline>- ...\<newline>\<newline>## Contradictions / uncertainties\<newline>- ...\<newline>\<newline>## Sources\<newline>''
            @ formatted @ py ''\<newline>'')"
  using format_sources_objects [OF assms, of py_str] build_report_text [of py_str sources _ topic]
  by blast

theorem build_report_template_witness:
  "list_all source_object [paper, forum_post]
   \<and> build_report example_str (py ''T'') [paper, forum_post] =
       Inr (py ''# Research Report: T\<newline>\<newline>## Summary\<newline>- ...\<newline>- ...\<newline>\<newline>## Key facts (with dates)\<newline>- ...\<newline>\<newline>## Contradictions / uncertainties\<newline>- ...\<newline>\<newline>## Sources\<newline>- Paper [2024-01-02]\<newline>  - URL: https://x.test\<newline>- (untitled) (community)\<newline>  - Notes: unverified\<newline>'')"
proof -
  have o: "list_all source_object [paper, forum_post]"
    by (simp add: paper_def forum_post_def)
  have f: "format_sources example_str [paper, forum_post]
        = Inr (py ''- Paper [2024-01-02]\<newline>  - URL: https://x.test\<newline>- (untitled) (community)\<newline>  - Notes: unverified'')"
    by (simp add: format_sources_def paper_line forum_post_line py_def)
  from build_report_template [OF o, of example_str "py ''T''"] f o
  show ?thesis by (auto simp: py_def)
qed

text \<open>
  Claim C4. \<open>load_sources\<close> returns a value exactly when the file opens and its text
  parses to a list, and the value is that list; it raises \<open>ValueError\<close> with the message
  \<open>Input JSON must be a list of source objects\<close> when the text parses to anything else;
  when the file does not open or its text does not parse, the exception of that step
  leaves \<open>load_sources\<close> and no value is returned.
\<close>
theorem load_sources_list_or_error:
  "(load_sources env path = Inr data \<longleftrightarrow>
      (\<exists>text. open_r env path = Inr text \<and> json_load env text = Inr (JList data)))
   \<and> (open_r env path = Inr text \<and> json_load env text = Inr v \<and> (\<forall>xs. v \<noteq> JList xs) \<longrightarrow>
        load_sources env path
          = Inl (ValueError (py ''Input JSON must be a list of source objects'')))
   \<and> (open_r env path = Inl e \<longrightarrow> load_sources env path = Inl e)
   \<and> (open_r env path = Inr text \<and> json_load env text = Inl e \<longrightarrow>
        load_sources env path = Inl e)"
  by (auto simp: load_sources_def split: sum.splits json.splits)

theorem load_sources_list_or_error_witness:
  "load_sources report_world (py ''sources.json'') = Inr [paper, forum_post]
   \<and> load_sources report_world (py ''object.json'')
        = Inl (ValueError (py ''Input JSON must be a list of source objects''))
   \<and> load_sources report_world (py ''missing.json'') = Inl OSError
   \<and> load_sources report_world (py ''broken.json'') = Inl JSONDecodeError"
proof -
  have a: "open_r report_world (py ''sources.json'') = Inr (py ''[papers]'')"
    and b: "json_load report_world (py ''[papers]'') = Inr (JList [paper, forum_post])"
    and c: "open_r report_world (py ''object.json'') = Inr (py ''{}'')"
    and d: "json_load report_world (py ''{}'') = Inr (JDict [])"
    and e: "open_r report_world (py ''missing.json'') = Inl OSError"
    and f: "open_r report_world (py ''broken.json'') = Inr (py ''['')"
    and g: "json_load report_world (py ''['') = Inl JSONDecodeError"
    by (simp_all add: report_world_def py_def)
  from load_sources_list_or_error [of report_world "py ''sources.json''" "[paper, forum_post]"] a b
  have 1: "load_sources report_world (py ''sources.json'') = Inr [paper, forum_post]"
    by blast
  from load_sources_list_or_error [of report_world "py ''object.json''" _ "py ''{}''" "JDict []"] c d
  have 2: "load_sources report_world (py ''object.json'')
        = Inl (ValueError (py ''Input JSON must be a list of source objects''))"
    by simp
  from load_sources_list_or_error [of report_world "py ''missing.json''" _ _ _ OSError] e
  have 3: "load_sources report_world (py ''missing.json'') = Inl OSError"
    by simp
  from load_sources_list_or_error
    [of report_world "py ''broken.json''" _ "py ''[''" _ JSONDecodeError] f g
  have 4: "load_sources report_world (py ''broken.json'') = Inl JSONDecodeError"
    by simp
  from 1 2 3 4 show ?thesis by simp
qed




end
